theory Spec2Isabelle
  imports Main "HOL-Library.Finite_Map"
begin

section \<open>EC2 NAT gateway resource: the lifecycle controller of nat\_gateway.go\<close>

text \<open>
  The four operations of \<^verbatim>\<open>ResourceNatGateway\<close> (create, read, update, delete) and the
  state prober \<^verbatim>\<open>NGStateRefreshFunc\<close> are embedded as functions that pass the tracked
  state (\<^verbatim>\<open>*schema.ResourceData\<close>) and the history of remote calls explicitly. A Go
  function that returns \<^verbatim>\<open>error\<close> returns an \<open>error option\<close> here (\<open>None\<close> is
  \<^verbatim>\<open>nil\<close>), and a run-time panic (an index out of range, a nil dereference) is an
  outcome of its own.
\<close>

subsection \<open>Errors\<close>

text \<open>
  An error value is an \<^verbatim>\<open>awserr.Error\<close> of the SDK (code and message), some other
  error, or the result of \<^verbatim>\<open>fmt.Errorf\<close>: with the verb \<^verbatim>\<open>%w\<close> the operand stays
  reachable through \<^verbatim>\<open>Unwrap\<close>, with \<^verbatim>\<open>%s\<close> only its text is kept.
\<close>

datatype error =
    AwsError string string
  | OtherError string
  | Errorf_w string error
  | Errorf_s string error

text \<open>\<^verbatim>\<open>errors.As(err, &awsErr)\<close>: the first \<^verbatim>\<open>awserr.Error\<close> on the unwrap chain.\<close>

fun errors_As :: "error \<Rightarrow> (string \<times> string) option" where
  "errors_As (AwsError c m) = Some (c, m)"
| "errors_As (OtherError s) = None"
| "errors_As (Errorf_w s e) = errors_As e"
| "errors_As (Errorf_s s e) = None"

text \<open>\<^verbatim>\<open>strings.Contains\<close>: \<open>sub\<close> occurs in \<open>s\<close> as a contiguous run of bytes.\<close>

fun has_prefix :: "string \<Rightarrow> string \<Rightarrow> bool" where
  "has_prefix s [] = True"
| "has_prefix [] (y # ys) = False"
| "has_prefix (x # xs) (y # ys) = (x = y \<and> has_prefix xs ys)"

fun strings_Contains :: "string \<Rightarrow> string \<Rightarrow> bool" where
  "strings_Contains [] sub = has_prefix [] sub"
| "strings_Contains (x # xs) sub = (has_prefix (x # xs) sub \<or> strings_Contains xs sub)"

text \<open>The two predicates of \<^verbatim>\<open>tfawserr\<close> the resource uses; both are false on \<^verbatim>\<open>nil\<close>.\<close>

definition ErrCodeEquals :: "error option \<Rightarrow> string \<Rightarrow> bool" where
  "ErrCodeEquals err code =
     (case err of
        None \<Rightarrow> False
      | Some e \<Rightarrow> (case errors_As e of None \<Rightarrow> False | Some (c, m) \<Rightarrow> c = code))"

definition ErrMessageContains :: "error option \<Rightarrow> string \<Rightarrow> string \<Rightarrow> bool" where
  "ErrMessageContains err code message =
     (case err of
        None \<Rightarrow> False
      | Some e \<Rightarrow>
          (case errors_As e of
             None \<Rightarrow> False
           | Some (c, m) \<Rightarrow> c = code \<and> strings_Contains m message))"

subsection \<open>\<^verbatim>\<open>strings.ToLower\<close>\<close>

text \<open>
  Go lowers an all-ASCII string byte by byte and hands any other string to
  \<^verbatim>\<open>strings.Map(unicode.ToLower, s)\<close>. The first path is written out; the second one
  needs the Unicode case tables and is the parameter \<open>U\<close>.
\<close>

definition lower_byte :: "char \<Rightarrow> char" where
  "lower_byte c =
     (if 65 \<le> (of_char c :: nat) \<and> (of_char c :: nat) \<le> 90
      then char_of ((of_char c :: nat) + 32) else c)"

definition strings_ToLower :: "(string \<Rightarrow> string) \<Rightarrow> string \<Rightarrow> string" where
  "strings_ToLower U s =
     (if list_all (\<lambda>c. (of_char c :: nat) < 128) s then map lower_byte s else U s)"

subsection \<open>The SDK's data\<close>

text \<open>
  Pointer fields (\<^verbatim>\<open>*string\<close>) are options. The elements of the two slices are pointers
  that the SDK's unmarshaller never leaves nil; they are plain values here.
\<close>

record ec2_Tag =
  Key :: "string option"
  Value :: "string option"

record NatGatewayAddress =
  AllocationId :: "string option"
  NetworkInterfaceId :: "string option"
  PrivateIp :: "string option"
  PublicIp :: "string option"

record NatGateway =
  ConnectivityType :: "string option"
  NatGatewayAddresses :: "NatGatewayAddress list"
  NatGatewayId :: "string option"
  State :: "string option"
  SubnetId :: "string option"
  Tags :: "ec2_Tag list"

record TagSpecification =
  ResourceType :: "string option"
  SpecTags :: "ec2_Tag list"

record CreateNatGatewayInput =
  Input_AllocationId :: "string option"
  Input_ConnectivityType :: "string option"
  Input_SubnetId :: "string option"
  TagSpecifications :: "TagSpecification list"

record CreateNatGatewayOutput =
  Output_NatGateway :: "NatGateway option"

record DescribeNatGatewaysInput =
  NatGatewayIds :: "string option list"

record DescribeNatGatewaysOutput =
  NatGateways :: "NatGateway list"

record DeleteNatGatewayInput =
  Delete_NatGatewayId :: "string option"

definition NatGatewayStateDeleted :: string where
  "NatGatewayStateDeleted = ''deleted''"

definition NatGatewayStateDeleting :: string where
  "NatGatewayStateDeleting = ''deleting''"

definition NatGatewayStateFailed :: string where
  "NatGatewayStateFailed = ''failed''"

definition ResourceTypeNatgateway :: string where
  "ResourceTypeNatgateway = ''natgateway''"

text \<open>\<^verbatim>\<open>aws.StringValue\<close>: the string behind the pointer, the empty string for nil.\<close>

definition aws_StringValue :: "string option \<Rightarrow> string" where
  "aws_StringValue p = (case p of None \<Rightarrow> [] | Some s \<Rightarrow> s)"

text \<open>A tag set, \<^verbatim>\<open>map[string]string\<close> or \<^verbatim>\<open>KeyValueTags\<close>, is a finite map.\<close>

type_synonym tag_map = "(string, string) fmap"

subsection \<open>Remote calls and their history\<close>

text \<open>
  Every call that leaves the process is appended to a history. What the remote side answers
  may depend on everything that was sent before, so each remote operation is a function of
  the history so far and of its input.
\<close>

datatype call =
    CreateNatGateway_call CreateNatGatewayInput
  | DescribeNatGateways_call DescribeNatGatewaysInput
  | DeleteNatGateway_call DeleteNatGatewayInput
  | WaitNATGatewayCreated_call string
  | WaitNATGatewayDeleted_call string
  | UpdateTags_call string tag_map tag_map

record EC2 =
  CreateNatGateway ::
    "call list \<Rightarrow> CreateNatGatewayInput \<Rightarrow> CreateNatGatewayOutput \<times> error option"
  DescribeNatGateways ::
    "call list \<Rightarrow> DescribeNatGatewaysInput \<Rightarrow> DescribeNatGatewaysOutput option \<times> error option"
  DeleteNatGateway ::
    "call list \<Rightarrow> DeleteNatGatewayInput \<Rightarrow> error option"

text \<open>
  \<open>AWSClient\<close> is the \<^verbatim>\<open>meta\<close> argument. Besides the connection it carries, as
  parameters, the functions of this repository that nat\_gateway.go calls and that live in
  other files: the two waiters, \<^verbatim>\<open>UpdateTags\<close>, the constant
  \<^verbatim>\<open>ErrCodeNatGatewayNotFound\<close>, and the operations of the tags package
  (\<^verbatim>\<open>tftags.New\<close>, \<^verbatim>\<open>MergeTags\<close>, \<^verbatim>\<open>KeyValueTags\<close>, \<^verbatim>\<open>IgnoreAWS\<close>,
  \<^verbatim>\<open>IgnoreConfig\<close>, \<^verbatim>\<open>RemoveDefaultConfig\<close>, \<^verbatim>\<open>Map\<close>,
  \<^verbatim>\<open>ec2TagSpecificationsFromKeyValueTags\<close>) with the default-tags and ignore-tags
  configurations already applied to them. \<open>unicode_ToLower\<close> is the non-ASCII path of
  \<^verbatim>\<open>strings.ToLower\<close>.
\<close>

record AWSClient =
  EC2Conn :: EC2
  WaitNATGatewayCreated :: "call list \<Rightarrow> string \<Rightarrow> error option"
  WaitNATGatewayDeleted :: "call list \<Rightarrow> string \<Rightarrow> error option"
  UpdateTags ::
    "call list \<Rightarrow> string \<Rightarrow> tag_map \<Rightarrow> tag_map \<Rightarrow> error option"
  ErrCodeNatGatewayNotFound :: string
  tags_New :: "tag_map \<Rightarrow> tag_map"
  MergeTags :: "tag_map \<Rightarrow> tag_map"
  ec2TagSpecificationsFromKeyValueTags ::
    "tag_map \<Rightarrow> string \<Rightarrow> TagSpecification list"
  KeyValueTags :: "ec2_Tag list \<Rightarrow> tag_map"
  IgnoreAWS :: "tag_map \<Rightarrow> tag_map"
  IgnoreConfig :: "tag_map \<Rightarrow> tag_map"
  RemoveDefaultConfig :: "tag_map \<Rightarrow> tag_map"
  tags_Map :: "tag_map \<Rightarrow> tag_map"
  unicode_ToLower :: "string \<Rightarrow> string"

subsection \<open>Tracked state\<close>

text \<open>
  \<^verbatim>\<open>schema.ResourceData\<close> for the schema of \<^verbatim>\<open>ResourceNatGateway\<close>: the identifier and
  one field for each attribute. A string attribute holds what was last passed to
  \<^verbatim>\<open>d.Set\<close>, a \<^verbatim>\<open>*string\<close> that may be nil. \<open>tags_all_old\<close> is the prior value of
  \<^verbatim>\<open>tags_all\<close> that \<^verbatim>\<open>d.GetChange\<close> returns next to the planned one.
\<close>

record ResourceData =
  d_Id :: string
  allocation_id :: "string option"
  connectivity_type :: "string option"
  network_interface_id :: "string option"
  private_ip :: "string option"
  public_ip :: "string option"
  subnet_id :: "string option"
  tags :: tag_map
  tags_all :: tag_map
  tags_all_old :: tag_map

text \<open>\<^verbatim>\<open>d.GetOk\<close> on a string attribute: the value, and whether it is set and not empty.\<close>

definition GetOk :: "string option \<Rightarrow> string option" where
  "GetOk a = (case a of None \<Rightarrow> None | Some v \<Rightarrow> (if v = [] then None else Some v))"

text \<open>
  \<^verbatim>\<open>connectivity_type\<close> is declared with \<^verbatim>\<open>Default: ec2.ConnectivityTypePublic\<close>
  (line 40): read through \<^verbatim>\<open>d.GetOk\<close>, an attribute that has no value gives the
  default.
\<close>

definition ConnectivityTypePublic :: string where
  "ConnectivityTypePublic = ''public''"

definition GetOk_default :: "string \<Rightarrow> string option \<Rightarrow> string option" where
  "GetOk_default dflt a = GetOk (case a of None \<Rightarrow> Some dflt | Some v \<Rightarrow> Some v)"

text \<open>
  \<^verbatim>\<open>d.Set\<close> on the two tag attributes returns an error value that the source checks. The
  value written is a map of strings for an attribute declared as a map of strings, which
  the writer accepts.
\<close>

definition Set_tags :: "ResourceData \<Rightarrow> tag_map \<Rightarrow> ResourceData \<times> error option" where
  "Set_tags d m = (d\<lparr>tags := m\<rparr>, None)"

definition Set_tags_all :: "ResourceData \<Rightarrow> tag_map \<Rightarrow> ResourceData \<times> error option" where
  "Set_tags_all d m = (d\<lparr>tags_all := m\<rparr>, None)"

subsection \<open>Outcomes\<close>

datatype panic = IndexOutOfRange | NilPointerDereference

datatype 'a outcome = Returned 'a | Panicked panic

subsection \<open>The state prober\<close>

text \<open>
  \<^verbatim>\<open>NGStateRefreshFunc(conn, id)()\<close>: one describe call, then the classification of
  lines 199 to 215. The result is the triple of the untyped object, the state label and the
  error.
\<close>

definition NGStateRefreshFunc ::
  "EC2 \<Rightarrow> string \<Rightarrow> call list \<Rightarrow>
     call list \<times> (NatGateway option \<times> string \<times> error option) outcome" where
  "NGStateRefreshFunc conn ident hist =
     (let opts = \<lparr>NatGatewayIds = [Some ident]\<rparr>;
          (resp0, err) = DescribeNatGateways conn hist opts;
          hist' = hist @ [DescribeNatGateways_call opts]
      in if err \<noteq> None \<and> \<not> ErrMessageContains err ''NatGatewayNotFound'' ''''
         then (hist', Returned (None, '''', err))
         else
           (let resp = (if err \<noteq> None then None else resp0)
            in case resp of
                 None \<Rightarrow> (hist', Returned (None, '''', None))
               | Some r \<Rightarrow>
                   (case NatGateways r of
                      [] \<Rightarrow> (hist', Panicked IndexOutOfRange)
                    | ng # rest \<Rightarrow>
                        (case State ng of
                           None \<Rightarrow> (hist', Panicked NilPointerDereference)
                         | Some s \<Rightarrow> (hist', Returned (Some ng, s, None))))))"

subsection \<open>Read\<close>

text \<open>
  The lookup table of lines 116 to 120 and the test of line 122: the label is lowered before
  it is looked up, and only the second result of the lookup (whether the key is present) is
  used.
\<close>

definition status :: "string \<rightharpoonup> bool" where
  "status =
     map_of [(NatGatewayStateDeleted, True),
             (NatGatewayStateDeleting, True),
             (NatGatewayStateFailed, True)]"

definition lookup_ok :: "(string \<rightharpoonup> bool) \<Rightarrow> string \<Rightarrow> bool \<times> bool" where
  "lookup_ok m k = (case m k of None \<Rightarrow> (False, False) | Some v \<Rightarrow> (v, True))"

definition gone :: "AWSClient \<Rightarrow> NatGateway option \<Rightarrow> string \<Rightarrow> bool" where
  "gone meta ngRaw state =
     (let (v, ok) = lookup_ok status (strings_ToLower (unicode_ToLower meta) state)
      in ngRaw = None \<or> ok)"

text \<open>
  Lines 128 to 151, for an object that is not nil. The two attributes of lines 130 and 131
  are written before the address slice is indexed, so they are part of the state that a
  panic at line 134 leaves behind.
\<close>

definition set_attributes ::
  "AWSClient \<Rightarrow> NatGateway \<Rightarrow> ResourceData \<Rightarrow> ResourceData \<times> error option outcome" where
  "set_attributes meta ng d =
     (let d1 = d\<lparr>connectivity_type := ConnectivityType ng\<rparr>;
          d2 = d1\<lparr>subnet_id := SubnetId ng\<rparr>
      in case NatGatewayAddresses ng of
           [] \<Rightarrow> (d2, Panicked IndexOutOfRange)
         | address # rest \<Rightarrow>
             (let d3 = d2\<lparr>allocation_id := AllocationId address\<rparr>;
                  d4 = d3\<lparr>network_interface_id := NetworkInterfaceId address\<rparr>;
                  d5 = d4\<lparr>private_ip := PrivateIp address\<rparr>;
                  d6 = d5\<lparr>public_ip := PublicIp address\<rparr>;
                  tgs = IgnoreConfig meta (IgnoreAWS meta (KeyValueTags meta (Tags ng)))
              in case Set_tags d6 (tags_Map meta (RemoveDefaultConfig meta tgs)) of
                   (d7, Some e) \<Rightarrow> (d7, Returned (Some (Errorf_w ''error setting tags: '' e)))
                 | (d7, None) \<Rightarrow>
                     (case Set_tags_all d7 (tags_Map meta tgs) of
                        (d8, Some e) \<Rightarrow>
                          (d8, Returned (Some (Errorf_w ''error setting tags_all: '' e)))
                      | (d8, None) \<Rightarrow> (d8, Returned None))))"

definition resourceNatGatewayRead ::
  "AWSClient \<Rightarrow> ResourceData \<Rightarrow> call list \<Rightarrow>
     (ResourceData \<times> call list) \<times> error option outcome" where
  "resourceNatGatewayRead meta d hist =
     (case NGStateRefreshFunc (EC2Conn meta) (d_Id d) hist of
        (hist', Panicked p) \<Rightarrow> ((d, hist'), Panicked p)
      | (hist', Returned (ngRaw, state, err)) \<Rightarrow>
          (if err \<noteq> None then ((d, hist'), Returned err)
           else if gone meta ngRaw state then ((d\<lparr>d_Id := ''''\<rparr>, hist'), Returned None)
           else
             (case ngRaw of
                None \<Rightarrow> ((d, hist'), Panicked NilPointerDereference)
              | Some ng \<Rightarrow>
                  (case set_attributes meta ng d of (d', r) \<Rightarrow> ((d', hist'), r)))))"

subsection \<open>Update\<close>

definition resourceNatGatewayUpdate ::
  "AWSClient \<Rightarrow> ResourceData \<Rightarrow> call list \<Rightarrow>
     (ResourceData \<times> call list) \<times> error option outcome" where
  "resourceNatGatewayUpdate meta d hist =
     (if tags_all_old d \<noteq> tags_all d
      then
        (let (old, new) = (tags_all_old d, tags_all d);
             err = UpdateTags meta hist (d_Id d) old new;
             hist' = hist @ [UpdateTags_call (d_Id d) old new]
         in case err of
              Some e \<Rightarrow>
                ((d, hist'),
                 Returned (Some (Errorf_s
                   (''error updating EC2 NAT Gateway ('' @ d_Id d @ '') tags: '') e)))
            | None \<Rightarrow> resourceNatGatewayRead meta d hist')
      else resourceNatGatewayRead meta d hist)"

subsection \<open>Delete\<close>

definition resourceNatGatewayDelete ::
  "AWSClient \<Rightarrow> ResourceData \<Rightarrow> call list \<Rightarrow>
     (ResourceData \<times> call list) \<times> error option outcome" where
  "resourceNatGatewayDelete meta d hist =
     (let input = \<lparr>Delete_NatGatewayId = Some (d_Id d)\<rparr>;
          err = DeleteNatGateway (EC2Conn meta) hist input;
          hist1 = hist @ [DeleteNatGateway_call input]
      in if ErrCodeEquals err (ErrCodeNatGatewayNotFound meta)
         then ((d, hist1), Returned None)
         else
           (case err of
              Some e \<Rightarrow>
                ((d, hist1),
                 Returned (Some (Errorf_w
                   (''error deleting EC2 NAT Gateway ('' @ d_Id d @ ''): '') e)))
            | None \<Rightarrow>
                (let hist2 = hist1 @ [WaitNATGatewayDeleted_call (d_Id d)]
                 in case WaitNATGatewayDeleted meta hist1 (d_Id d) of
                      Some e \<Rightarrow>
                        ((d, hist2),
                         Returned (Some (Errorf_w
                           (''error waiting for EC2 NAT Gateway ('' @ d_Id d @ '') delete: '') e)))
                    | None \<Rightarrow> ((d, hist2), Returned None))))"

subsection \<open>Create\<close>

definition create_input :: "AWSClient \<Rightarrow> ResourceData \<Rightarrow> CreateNatGatewayInput" where
  "create_input meta d =
     (let tgs = MergeTags meta (tags_New meta (tags d));
          input0 = \<lparr>Input_AllocationId = None, Input_ConnectivityType = None,
                    Input_SubnetId = None,
                    TagSpecifications =
                      ec2TagSpecificationsFromKeyValueTags meta tgs ResourceTypeNatgateway\<rparr>;
          input1 = (case GetOk (allocation_id d) of
                      Some v \<Rightarrow> input0\<lparr>Input_AllocationId := Some v\<rparr>
                    | None \<Rightarrow> input0);
          input2 = (case GetOk_default ConnectivityTypePublic (connectivity_type d) of
                      Some v \<Rightarrow> input1\<lparr>Input_ConnectivityType := Some v\<rparr>
                    | None \<Rightarrow> input1)
      in case GetOk (subnet_id d) of
           Some v \<Rightarrow> input2\<lparr>Input_SubnetId := Some v\<rparr>
         | None \<Rightarrow> input2)"

definition resourceNatGatewayCreate ::
  "AWSClient \<Rightarrow> ResourceData \<Rightarrow> call list \<Rightarrow>
     (ResourceData \<times> call list) \<times> error option outcome" where
  "resourceNatGatewayCreate meta d hist =
     (let input = create_input meta d;
          (output, err) = CreateNatGateway (EC2Conn meta) hist input;
          hist1 = hist @ [CreateNatGateway_call input]
      in case err of
           Some e \<Rightarrow>
             ((d, hist1), Returned (Some (Errorf_w ''error creating EC2 NAT Gateway: '' e)))
         | None \<Rightarrow>
             (case Output_NatGateway output of
                None \<Rightarrow> ((d, hist1), Panicked NilPointerDereference)
              | Some ng \<Rightarrow>
                  (let d1 = d\<lparr>d_Id := aws_StringValue (NatGatewayId ng)\<rparr>;
                       hist2 = hist1 @ [WaitNATGatewayCreated_call (d_Id d1)]
                   in case WaitNATGatewayCreated meta hist1 (d_Id d1) of
                        Some e \<Rightarrow>
                          ((d1, hist2),
                           Returned (Some (Errorf_w
                             (''error waiting for EC2 NAT Gateway ('' @ d_Id d1 @ '') create: '')
                             e)))
                      | None \<Rightarrow> resourceNatGatewayRead meta d1 hist2)))"

subsection \<open>A scripted remote side\<close>

text \<open>
  A connection that gives the same answers whatever it is asked, and a client around it
  whose tag operations change nothing. They serve to run the operations on concrete inputs.
\<close>

definition scripted_conn ::
  "CreateNatGatewayOutput \<times> error option \<Rightarrow> DescribeNatGatewaysOutput option \<times> error option \<Rightarrow>
     error option \<Rightarrow> EC2" where
  "scripted_conn created described deleted =
     \<lparr>CreateNatGateway = (\<lambda>h i. created),
      DescribeNatGateways = (\<lambda>h i. described),
      DeleteNatGateway = (\<lambda>h i. deleted)\<rparr>"

definition scripted_meta ::
  "EC2 \<Rightarrow> error option \<Rightarrow> error option \<Rightarrow> error option \<Rightarrow> AWSClient" where
  "scripted_meta conn waitCreated waitDeleted updated =
     \<lparr>EC2Conn = conn,
      WaitNATGatewayCreated = (\<lambda>h i. waitCreated),
      WaitNATGatewayDeleted = (\<lambda>h i. waitDeleted),
      UpdateTags = (\<lambda>h i old new. updated),
      ErrCodeNatGatewayNotFound = ''NatGatewayNotFound'',
      tags_New = (\<lambda>m. m),
      MergeTags = (\<lambda>m. m),
      ec2TagSpecificationsFromKeyValueTags = (\<lambda>m t. []),
      KeyValueTags = (\<lambda>ts. fmap_of_list (map (\<lambda>t. (aws_StringValue (Key t), aws_StringValue (Value t))) ts)),
      IgnoreAWS = (\<lambda>m. m),
      IgnoreConfig = (\<lambda>m. m),
      RemoveDefaultConfig = (\<lambda>m. m),
      tags_Map = (\<lambda>m. m),
      unicode_ToLower = (\<lambda>s. s)\<rparr>"

definition address_a :: NatGatewayAddress where
  "address_a =
     \<lparr>AllocationId = Some ''eipalloc-a'', NetworkInterfaceId = Some ''eni-a'',
      PrivateIp = Some ''10.0.0.5'', PublicIp = Some ''198.51.100.7''\<rparr>"

definition address_b :: NatGatewayAddress where
  "address_b =
     \<lparr>AllocationId = Some ''eipalloc-b'', NetworkInterfaceId = Some ''eni-b'',
      PrivateIp = Some ''10.0.0.9'', PublicIp = Some ''198.51.100.8''\<rparr>"

definition gateway :: "string \<Rightarrow> NatGatewayAddress list \<Rightarrow> NatGateway" where
  "gateway st addrs =
     \<lparr>ConnectivityType = Some ''public'', NatGatewayAddresses = addrs,
      NatGatewayId = Some ''nat-1'', State = Some st, SubnetId = Some ''subnet-1'',
      Tags = []\<rparr>"

definition no_output :: "CreateNatGatewayOutput \<times> error option" where
  "no_output = (\<lparr>Output_NatGateway = None\<rparr>, None)"

definition tracked :: ResourceData where
  "tracked =
     \<lparr>d_Id = ''nat-1'', allocation_id = Some ''eipalloc-0'',
      connectivity_type = Some ''public'', network_interface_id = None,
      private_ip = None, public_ip = None, subnet_id = Some ''subnet-0'',
      tags = fmempty, tags_all = fmempty, tags_all_old = fmempty\<rparr>"

lemmas fixture_defs = scripted_meta_def scripted_conn_def no_output_def gateway_def
  address_a_def address_b_def tracked_def

section \<open>Properties\<close>

subsection \<open>Auxiliary facts\<close>

lemma strings_Contains_empty: "strings_Contains s []"
  by (cases s) simp_all

text \<open>With the empty message, \<^verbatim>\<open>ErrMessageContains\<close> is the test of the code alone.\<close>

lemma ErrMessageContains_empty: "ErrMessageContains err code '''' = ErrCodeEquals err code"
  by (simp add: ErrMessageContains_def ErrCodeEquals_def strings_Contains_empty
      split: option.splits)

lemma gone_iff:
  "gone meta ngRaw state \<longleftrightarrow>
     (ngRaw = None \<or>
      strings_ToLower (unicode_ToLower meta) state \<in> {''deleted'', ''deleting'', ''failed''})"
  by (auto simp: gone_def lookup_ok_def status_def NatGatewayStateDeleted_def
      NatGatewayStateDeleting_def NatGatewayStateFailed_def split: if_splits)

text \<open>The three labels are already in lower case, whatever the Unicode path does.\<close>

lemma lower_label:
  "strings_ToLower U ''deleted'' = ''deleted''"
  "strings_ToLower U ''deleting'' = ''deleting''"
  "strings_ToLower U ''failed'' = ''failed''"
  by (simp_all add: strings_ToLower_def lower_byte_def)

lemma gone_label:
  assumes "state \<in> {''deleted'', ''deleting'', ''failed''}"
  shows "gone meta ngRaw state"
  using assms by (auto simp add: gone_iff lower_label)

lemma set_attributes_first:
  assumes "NatGatewayAddresses ng = a # rest"
  shows "set_attributes meta ng d =
    (d\<lparr>connectivity_type := ConnectivityType ng, subnet_id := SubnetId ng,
       allocation_id := AllocationId a, network_interface_id := NetworkInterfaceId a,
       private_ip := PrivateIp a, public_ip := PublicIp a,
       tags := tags_Map meta (RemoveDefaultConfig meta
                 (IgnoreConfig meta (IgnoreAWS meta (KeyValueTags meta (Tags ng))))),
       tags_all := tags_Map meta
                 (IgnoreConfig meta (IgnoreAWS meta (KeyValueTags meta (Tags ng))))\<rparr>,
     Returned None)"
  using assms by (simp add: set_attributes_def Set_tags_def Set_tags_all_def Let_def)

lemma set_attributes_empty:
  assumes "NatGatewayAddresses ng = []"
  shows "set_attributes meta ng d =
    (d\<lparr>connectivity_type := ConnectivityType ng, subnet_id := SubnetId ng\<rparr>,
     Panicked IndexOutOfRange)"
  using assms by (simp add: set_attributes_def Let_def)

text \<open>The prober, and so Read, sends exactly one describe call, on every path.\<close>

lemma probe_history:
  "fst (NGStateRefreshFunc conn ident hist) =
     hist @ [DescribeNatGateways_call \<lparr>NatGatewayIds = [Some ident]\<rparr>]"
  by (simp add: NGStateRefreshFunc_def Let_def split: prod.splits option.splits list.splits)

lemma read_history:
  "snd (fst (resourceNatGatewayRead meta d hist)) =
     hist @ [DescribeNatGateways_call \<lparr>NatGatewayIds = [Some (d_Id d)]\<rparr>]"
  using probe_history [of "EC2Conn meta" "d_Id d" hist]
  by (auto simp add: resourceNatGatewayRead_def split: prod.splits outcome.splits option.splits)

subsection \<open>The state prober\<close>

text \<open>
  C5. When the describe call fails and the error does not carry the not-found code (a
  network, authorisation or throttling failure, or an error with no code at all), the
  prober returns that same error to its caller, with no object and the empty label; it does
  not report the object as absent.
\<close>

theorem probe_propagates_other_errors:
  assumes "DescribeNatGateways conn hist \<lparr>NatGatewayIds = [Some ident]\<rparr> = (resp, Some e)"
    and "\<not> ErrCodeEquals (Some e) ''NatGatewayNotFound''"
  shows "NGStateRefreshFunc conn ident hist =
    (hist @ [DescribeNatGateways_call \<lparr>NatGatewayIds = [Some ident]\<rparr>],
     Returned (None, '''', Some e))"
  using assms by (simp add: NGStateRefreshFunc_def ErrMessageContains_empty)

theorem probe_propagates_other_errors_witness:
  "NGStateRefreshFunc
     (scripted_conn no_output (None, Some (AwsError ''RequestLimitExceeded'' ''slow down'')) None)
     ''nat-1'' [] =
   ([DescribeNatGateways_call \<lparr>NatGatewayIds = [Some ''nat-1'']\<rparr>],
    Returned (None, '''', Some (AwsError ''RequestLimitExceeded'' ''slow down'')))"
proof -
  let ?conn =
    "scripted_conn no_output (None, Some (AwsError ''RequestLimitExceeded'' ''slow down'')) None"
  have answer: "DescribeNatGateways ?conn [] \<lparr>NatGatewayIds = [Some ''nat-1'']\<rparr> =
      (None, Some (AwsError ''RequestLimitExceeded'' ''slow down''))"
    by (simp add: scripted_conn_def)
  have other: "\<not> ErrCodeEquals (Some (AwsError ''RequestLimitExceeded'' ''slow down''))
      ''NatGatewayNotFound''"
    by (simp add: ErrCodeEquals_def)
  from probe_propagates_other_errors [OF answer other] show ?thesis by simp
qed

text \<open>
  C6. A describe call that succeeds with an empty list of gateways should make the prober
  report absent. The prober indexes the list without looking at its length: on the empty
  list it panics.
\<close>

theorem probe_empty_list_panics:
  "NGStateRefreshFunc (scripted_conn no_output (Some \<lparr>NatGateways = []\<rparr>, None) None) ''nat-1'' [] =
     ([DescribeNatGateways_call \<lparr>NatGatewayIds = [Some ''nat-1'']\<rparr>], Panicked IndexOutOfRange)"
  by (simp add: NGStateRefreshFunc_def scripted_conn_def)

text \<open>
  A describe call that fails with the not-found code and a describe call that yields a nil
  response give the same outcome: no object, the empty state label, no error.
\<close>

lemma probe_not_found_like_nil:
  assumes "DescribeNatGateways conn1 hist \<lparr>NatGatewayIds = [Some ident]\<rparr> = (resp, Some e)"
    and "ErrCodeEquals (Some e) ''NatGatewayNotFound''"
    and "DescribeNatGateways conn2 hist \<lparr>NatGatewayIds = [Some ident]\<rparr> = (None, None)"
  shows "NGStateRefreshFunc conn1 ident hist =
      (hist @ [DescribeNatGateways_call \<lparr>NatGatewayIds = [Some ident]\<rparr>],
       Returned (None, '''', None))
    \<and> NGStateRefreshFunc conn2 ident hist = NGStateRefreshFunc conn1 ident hist"
  using assms by (simp add: NGStateRefreshFunc_def ErrMessageContains_empty)

text \<open>
  C8. A describe call that fails with the not-found code and a describe call that yields a
  nil or empty response should give the caller the same absent outcome: no object, the empty
  state label, no error. For the nil response they do. For a response that is not nil and
  holds an empty list of gateways they do not: the not-found code gives the absent outcome,
  the empty list a panic at the index of line 214. The caller can tell the two apart.
\<close>

theorem probe_empty_response_unlike_not_found:
  "NGStateRefreshFunc
     (scripted_conn no_output
        (None, Some (AwsError ''NatGatewayNotFound'' ''no such gateway'')) None)
     ''nat-7'' [] =
     ([DescribeNatGateways_call \<lparr>NatGatewayIds = [Some ''nat-7'']\<rparr>],
      Returned (None, '''', None))
   \<and> NGStateRefreshFunc
     (scripted_conn no_output (Some \<lparr>NatGateways = []\<rparr>, None) None) ''nat-7'' [] =
     ([DescribeNatGateways_call \<lparr>NatGatewayIds = [Some ''nat-7'']\<rparr>],
      Panicked IndexOutOfRange)
   \<and> NGStateRefreshFunc
     (scripted_conn no_output (Some \<lparr>NatGateways = []\<rparr>, None) None) ''nat-7'' [] \<noteq>
     NGStateRefreshFunc
     (scripted_conn no_output
        (None, Some (AwsError ''NatGatewayNotFound'' ''no such gateway'')) None)
     ''nat-7'' []"
  by (simp add: NGStateRefreshFunc_def ErrMessageContains_def scripted_conn_def)

subsection \<open>Read\<close>

text \<open>
  C9. When the probe that Read makes returns an error, Read returns that error as it is
  (it is not wrapped) and the tracked state, identifier and attributes, is what it was.
\<close>

theorem read_propagates_probe_error:
  assumes "NGStateRefreshFunc (EC2Conn meta) (d_Id d) hist =
      (hist', Returned (ngRaw, state, Some e))"
  shows "resourceNatGatewayRead meta d hist = ((d, hist'), Returned (Some e))"
  using assms by (simp add: resourceNatGatewayRead_def)

theorem read_propagates_probe_error_witness:
  "resourceNatGatewayRead
     (scripted_meta (scripted_conn no_output (None, Some (OtherError ''connection reset'')) None)
        None None None)
     tracked [] =
   ((tracked, [DescribeNatGateways_call \<lparr>NatGatewayIds = [Some ''nat-1'']\<rparr>]),
    Returned (Some (OtherError ''connection reset'')))"
proof -
  let ?meta =
    "scripted_meta (scripted_conn no_output (None, Some (OtherError ''connection reset'')) None)
       None None None"
  have "NGStateRefreshFunc (EC2Conn ?meta) (d_Id tracked) [] =
      ([DescribeNatGateways_call \<lparr>NatGatewayIds = [Some ''nat-1'']\<rparr>],
       Returned (None, '''', Some (OtherError ''connection reset'')))"
    by (simp add: NGStateRefreshFunc_def ErrMessageContains_def fixture_defs)
  from read_propagates_probe_error [OF this] show ?thesis .
qed

text \<open>
  C10. Whenever Read reports absent (the probe returned no error, and either no object or
  a label that is, in lower case, \<open>deleted\<close>, \<open>deleting\<close> or \<open>failed\<close>), Read returns no
  error and the only change to the tracked state is that the identifier is the empty
  string: every attribute keeps its value.
\<close>

theorem read_absent_frame:
  assumes "NGStateRefreshFunc (EC2Conn meta) (d_Id d) hist =
      (hist', Returned (ngRaw, state, None))"
    and "ngRaw = None \<or>
      strings_ToLower (unicode_ToLower meta) state \<in> {''deleted'', ''deleting'', ''failed''}"
  shows "snd (resourceNatGatewayRead meta d hist) = Returned None \<and>
    (let d' = fst (fst (resourceNatGatewayRead meta d hist))
     in d_Id d' = '''' \<and>
        allocation_id d' = allocation_id d \<and> connectivity_type d' = connectivity_type d \<and>
        network_interface_id d' = network_interface_id d \<and> private_ip d' = private_ip d \<and>
        public_ip d' = public_ip d \<and> subnet_id d' = subnet_id d \<and>
        tags d' = tags d \<and> tags_all d' = tags_all d \<and> tags_all_old d' = tags_all_old d)"
  using assms gone_iff [of meta ngRaw state]
  by (auto simp add: resourceNatGatewayRead_def Let_def)

theorem read_absent_frame_witness:
  "snd (resourceNatGatewayRead
          (scripted_meta (scripted_conn no_output (None, None) None) None None None)
          tracked []) = Returned None \<and>
   (let d' = fst (fst (resourceNatGatewayRead
          (scripted_meta (scripted_conn no_output (None, None) None) None None None)
          tracked []))
    in d_Id d' = '''' \<and>
       allocation_id d' = Some ''eipalloc-0'' \<and> connectivity_type d' = Some ''public'' \<and>
       network_interface_id d' = None \<and> private_ip d' = None \<and> public_ip d' = None \<and>
       subnet_id d' = Some ''subnet-0'' \<and>
       tags d' = fmempty \<and> tags_all d' = fmempty \<and> tags_all_old d' = fmempty)"
proof -
  let ?meta = "scripted_meta (scripted_conn no_output (None, None) None) None None None"
  have probe: "NGStateRefreshFunc (EC2Conn ?meta) (d_Id tracked) [] =
      ([DescribeNatGateways_call \<lparr>NatGatewayIds = [Some ''nat-1'']\<rparr>], Returned (None, '''', None))"
    by (simp add: NGStateRefreshFunc_def fixture_defs)
  have absent: "(None :: NatGateway option) = None \<or>
      strings_ToLower (unicode_ToLower ?meta) '''' \<in> {''deleted'', ''deleting'', ''failed''}"
    by simp
  from read_absent_frame [OF probe absent] show ?thesis
    by (simp add: tracked_def Let_def)
qed

text \<open>
  C1, as the code has it. Let the probe return without an error. If it returned no object,
  or a state label that in lower case is \<open>deleted\<close>, \<open>deleting\<close> or \<open>failed\<close>, Read
  clears the tracked identifier and returns no error. For every other object whose address
  list is not empty, Read returns no error and writes the object into the tracked state:
  connectivity type and subnet of the object, the four fields of its first address, and
  its tags.
\<close>

theorem read_absent_or_mapped:
  assumes "NGStateRefreshFunc (EC2Conn meta) (d_Id d) hist =
      (hist', Returned (ngRaw, state, None))"
  shows "(ngRaw = None \<or>
          strings_ToLower (unicode_ToLower meta) state \<in> {''deleted'', ''deleting'', ''failed''}
          \<longrightarrow> resourceNatGatewayRead meta d hist = ((d\<lparr>d_Id := ''''\<rparr>, hist'), Returned None))
       \<and> (\<forall>ng a rest.
            ngRaw = Some ng \<and>
            strings_ToLower (unicode_ToLower meta) state \<notin> {''deleted'', ''deleting'', ''failed''} \<and>
            NatGatewayAddresses ng = a # rest
          \<longrightarrow> resourceNatGatewayRead meta d hist =
               ((d\<lparr>connectivity_type := ConnectivityType ng, subnet_id := SubnetId ng,
                   allocation_id := AllocationId a,
                   network_interface_id := NetworkInterfaceId a,
                   private_ip := PrivateIp a, public_ip := PublicIp a,
                   tags := tags_Map meta (RemoveDefaultConfig meta
                             (IgnoreConfig meta (IgnoreAWS meta (KeyValueTags meta (Tags ng))))),
                   tags_all := tags_Map meta
                             (IgnoreConfig meta (IgnoreAWS meta (KeyValueTags meta (Tags ng))))\<rparr>,
                 hist'),
                Returned None))"
  using assms gone_iff [of meta ngRaw state]
  by (auto simp add: resourceNatGatewayRead_def set_attributes_first)

theorem read_absent_or_mapped_witness:
  "resourceNatGatewayRead
     (scripted_meta
        (scripted_conn no_output
           (Some \<lparr>NatGateways = [gateway ''deleting'' [address_a]]\<rparr>, None) None)
        None None None)
     tracked [] =
   ((tracked\<lparr>d_Id := ''''\<rparr>, [DescribeNatGateways_call \<lparr>NatGatewayIds = [Some ''nat-1'']\<rparr>]),
    Returned None)
  \<and> resourceNatGatewayRead
     (scripted_meta
        (scripted_conn no_output
           (Some \<lparr>NatGateways = [gateway ''available'' [address_a, address_b]]\<rparr>, None) None)
        None None None)
     tracked [] =
   ((tracked\<lparr>connectivity_type := Some ''public'', subnet_id := Some ''subnet-1'',
       allocation_id := Some ''eipalloc-a'', network_interface_id := Some ''eni-a'',
       private_ip := Some ''10.0.0.5'', public_ip := Some ''198.51.100.7'',
       tags := fmempty, tags_all := fmempty\<rparr>,
     [DescribeNatGateways_call \<lparr>NatGatewayIds = [Some ''nat-1'']\<rparr>]),
    Returned None)"
proof -
  let ?m1 = "scripted_meta
        (scripted_conn no_output
           (Some \<lparr>NatGateways = [gateway ''deleting'' [address_a]]\<rparr>, None) None)
        None None None"
  let ?m2 = "scripted_meta
        (scripted_conn no_output
           (Some \<lparr>NatGateways = [gateway ''available'' [address_a, address_b]]\<rparr>, None) None)
        None None None"
  let ?h = "[DescribeNatGateways_call \<lparr>NatGatewayIds = [Some ''nat-1'']\<rparr>]"
  have p1: "NGStateRefreshFunc (EC2Conn ?m1) (d_Id tracked) [] =
      (?h, Returned (Some (gateway ''deleting'' [address_a]), ''deleting'', None))"
    by (simp add: NGStateRefreshFunc_def fixture_defs)
  have p2: "NGStateRefreshFunc (EC2Conn ?m2) (d_Id tracked) [] =
      (?h, Returned (Some (gateway ''available'' [address_a, address_b]), ''available'', None))"
    by (simp add: NGStateRefreshFunc_def fixture_defs)
  have l2: "strings_ToLower (unicode_ToLower ?m2) ''available'' \<notin>
      {''deleted'', ''deleting'', ''failed''}"
    by (simp add: strings_ToLower_def lower_byte_def)
  have a2: "NatGatewayAddresses (gateway ''available'' [address_a, address_b]) =
      address_a # [address_b]"
    by (simp add: gateway_def)
  from read_absent_or_mapped [OF p1] read_absent_or_mapped [OF p2] l2 a2 show ?thesis
    by (simp add: lower_label fixture_defs)
qed

text \<open>
  C1, as the claim states it, fails in two places. A live object whose address list is
  empty is not mapped: Read panics at the index, after it has written the connectivity type
  and the subnet. And a label is compared in lower case, so an object labelled \<open>DELETED\<close>,
  which is none of the three labels, is reported absent and not mapped.
\<close>

theorem read_claim_counterexample:
  "resourceNatGatewayRead
     (scripted_meta
        (scripted_conn no_output (Some \<lparr>NatGateways = [gateway ''available'' []]\<rparr>, None) None)
        None None None)
     tracked [] =
   ((tracked\<lparr>connectivity_type := Some ''public'', subnet_id := Some ''subnet-1''\<rparr>,
     [DescribeNatGateways_call \<lparr>NatGatewayIds = [Some ''nat-1'']\<rparr>]),
    Panicked IndexOutOfRange)
  \<and> ''DELETED'' \<notin> {''deleted'', ''deleting'', ''failed''}
  \<and> resourceNatGatewayRead
     (scripted_meta
        (scripted_conn no_output
           (Some \<lparr>NatGateways = [gateway ''DELETED'' [address_a]]\<rparr>, None) None)
        None None None)
     tracked [] =
   ((tracked\<lparr>d_Id := ''''\<rparr>, [DescribeNatGateways_call \<lparr>NatGatewayIds = [Some ''nat-1'']\<rparr>]),
    Returned None)"
proof -
  have low: "strings_ToLower (\<lambda>s. s) ''DELETED'' = ''deleted''"
    by code_simp
  have up: "gone (scripted_meta
        (scripted_conn no_output
           (Some \<lparr>NatGateways = [gateway ''DELETED'' [address_a]]\<rparr>, None) None)
        None None None) (Some (gateway ''DELETED'' [address_a])) ''DELETED''"
    by (simp add: gone_iff scripted_meta_def low)
  have av: "\<not> gone (scripted_meta
        (scripted_conn no_output (Some \<lparr>NatGateways = [gateway ''available'' []]\<rparr>, None) None)
        None None None) (Some (gateway ''available'' [])) ''available''"
    by (simp add: gone_iff scripted_meta_def strings_ToLower_def lower_byte_def)
  show ?thesis
    using up av
    by (simp add: resourceNatGatewayRead_def NGStateRefreshFunc_def set_attributes_empty
        fixture_defs)
qed

text \<open>
  C3. Read on a live object with no address should fail with an error value. It has no such
  check: the address slice is indexed at 0 as it comes, and on the empty slice Read panics
  (here for a gateway that is still pending).
\<close>

theorem read_empty_addresses_panics:
  "resourceNatGatewayRead
     (scripted_meta
        (scripted_conn no_output (Some \<lparr>NatGateways = [gateway ''pending'' []]\<rparr>, None) None)
        None None None)
     tracked [] =
   ((tracked\<lparr>connectivity_type := Some ''public'', subnet_id := Some ''subnet-1''\<rparr>,
     [DescribeNatGateways_call \<lparr>NatGatewayIds = [Some ''nat-1'']\<rparr>]),
    Panicked IndexOutOfRange)"
proof -
  have "\<not> gone (scripted_meta
        (scripted_conn no_output (Some \<lparr>NatGateways = [gateway ''pending'' []]\<rparr>, None) None)
        None None None) (Some (gateway ''pending'' [])) ''pending''"
    by (simp add: gone_iff scripted_meta_def strings_ToLower_def lower_byte_def)
  then show ?thesis
    by (simp add: resourceNatGatewayRead_def NGStateRefreshFunc_def set_attributes_empty
        fixture_defs)
qed

subsection \<open>Delete\<close>

text \<open>
  C2. For every identifier: when the delete call fails with the not-found code, Delete
  returns success and the only remote call it has made is the delete call, so the
  deleted-wait is not invoked; when the delete call fails with any other error, Delete
  returns that error (wrapped with its context) and again makes no further call; and only
  when the delete call succeeds is the deleted-wait invoked, whose error, if any, Delete
  returns.
\<close>

theorem delete_not_found_is_success:
  fixes meta :: AWSClient and d :: ResourceData and hist :: "call list"
  defines "input \<equiv> \<lparr>Delete_NatGatewayId = Some (d_Id d)\<rparr>"
  defines "err \<equiv> DeleteNatGateway (EC2Conn meta) hist input"
  defines "hist1 \<equiv> hist @ [DeleteNatGateway_call input]"
  shows "(ErrCodeEquals err (ErrCodeNatGatewayNotFound meta) \<longrightarrow>
           resourceNatGatewayDelete meta d hist = ((d, hist1), Returned None))
       \<and> (\<forall>e. err = Some e \<and> \<not> ErrCodeEquals err (ErrCodeNatGatewayNotFound meta) \<longrightarrow>
           resourceNatGatewayDelete meta d hist =
             ((d, hist1),
              Returned (Some (Errorf_w
                (''error deleting EC2 NAT Gateway ('' @ d_Id d @ ''): '') e))))
       \<and> (err = None \<longrightarrow>
           resourceNatGatewayDelete meta d hist =
             ((d, hist1 @ [WaitNATGatewayDeleted_call (d_Id d)]),
              Returned
                (case WaitNATGatewayDeleted meta hist1 (d_Id d) of
                   None \<Rightarrow> None
                 | Some e \<Rightarrow>
                     Some (Errorf_w
                       (''error waiting for EC2 NAT Gateway ('' @ d_Id d @ '') delete: '') e))))"
  unfolding input_def err_def hist1_def
  by (auto simp add: resourceNatGatewayDelete_def Let_def ErrCodeEquals_def
      split: option.splits)

theorem delete_not_found_is_success_witness:
  "resourceNatGatewayDelete
     (scripted_meta
        (scripted_conn no_output (None, None)
           (Some (AwsError ''NatGatewayNotFound'' ''no such gateway'')))
        None (Some (OtherError ''timeout'')) None)
     tracked [] =
   ((tracked, [DeleteNatGateway_call \<lparr>Delete_NatGatewayId = Some ''nat-1''\<rparr>]), Returned None)
  \<and> resourceNatGatewayDelete
     (scripted_meta
        (scripted_conn no_output (None, None)
           (Some (AwsError ''UnauthorizedOperation'' ''denied'')))
        None None None)
     tracked [] =
   ((tracked, [DeleteNatGateway_call \<lparr>Delete_NatGatewayId = Some ''nat-1''\<rparr>]),
    Returned (Some (Errorf_w ''error deleting EC2 NAT Gateway (nat-1): ''
      (AwsError ''UnauthorizedOperation'' ''denied''))))
  \<and> resourceNatGatewayDelete
     (scripted_meta (scripted_conn no_output (None, None) None)
        None (Some (OtherError ''timeout'')) None)
     tracked [] =
   ((tracked, [DeleteNatGateway_call \<lparr>Delete_NatGatewayId = Some ''nat-1''\<rparr>,
               WaitNATGatewayDeleted_call ''nat-1'']),
    Returned (Some (Errorf_w ''error waiting for EC2 NAT Gateway (nat-1) delete: ''
      (OtherError ''timeout''))))"
  using
    delete_not_found_is_success [where meta = "scripted_meta
        (scripted_conn no_output (None, None)
           (Some (AwsError ''NatGatewayNotFound'' ''no such gateway'')))
        None (Some (OtherError ''timeout'')) None" and d = tracked and hist = "[]"]
    delete_not_found_is_success [where meta = "scripted_meta
        (scripted_conn no_output (None, None)
           (Some (AwsError ''UnauthorizedOperation'' ''denied'')))
        None None None" and d = tracked and hist = "[]"]
    delete_not_found_is_success [where meta = "scripted_meta (scripted_conn no_output (None, None) None)
        None (Some (OtherError ''timeout'')) None" and d = tracked and hist = "[]"]
  by (simp add: fixture_defs ErrCodeEquals_def)

subsection \<open>Create\<close>

text \<open>
  C7. When the create call fails, Create returns an error (the call's error, wrapped) and
  the tracked state is untouched. When the create call succeeds and returns a gateway, and
  the wait that follows fails or times out, Create returns an error as well, and the
  tracked identifier is by then the identifier that the create call returned.
\<close>

theorem create_errors:
  fixes meta :: AWSClient and d :: ResourceData and hist :: "call list"
  defines "input \<equiv> create_input meta d"
  defines "hist1 \<equiv> hist @ [CreateNatGateway_call input]"
  shows "(\<forall>out e. CreateNatGateway (EC2Conn meta) hist input = (out, Some e) \<longrightarrow>
           resourceNatGatewayCreate meta d hist =
             ((d, hist1), Returned (Some (Errorf_w ''error creating EC2 NAT Gateway: '' e))))
       \<and> (\<forall>out ng e.
             CreateNatGateway (EC2Conn meta) hist input = (out, None) \<and>
             Output_NatGateway out = Some ng \<and>
             WaitNATGatewayCreated meta hist1 (aws_StringValue (NatGatewayId ng)) = Some e \<longrightarrow>
           resourceNatGatewayCreate meta d hist =
             ((d\<lparr>d_Id := aws_StringValue (NatGatewayId ng)\<rparr>,
               hist1 @ [WaitNATGatewayCreated_call (aws_StringValue (NatGatewayId ng))]),
              Returned (Some (Errorf_w
                (''error waiting for EC2 NAT Gateway ('' @ aws_StringValue (NatGatewayId ng)
                   @ '') create: '') e))))"
  unfolding input_def hist1_def
  by (auto simp add: resourceNatGatewayCreate_def Let_def)

theorem create_errors_witness:
  "resourceNatGatewayCreate
     (scripted_meta
        (scripted_conn
           (\<lparr>Output_NatGateway = None\<rparr>, Some (AwsError ''NatGatewayLimitExceeded'' ''too many''))
           (None, None) None)
        None None None)
     (tracked\<lparr>d_Id := ''''\<rparr>) [] =
   ((tracked\<lparr>d_Id := ''''\<rparr>,
     [CreateNatGateway_call
        \<lparr>Input_AllocationId = Some ''eipalloc-0'', Input_ConnectivityType = Some ''public'',
         Input_SubnetId = Some ''subnet-0'', TagSpecifications = []\<rparr>]),
    Returned (Some (Errorf_w ''error creating EC2 NAT Gateway: ''
      (AwsError ''NatGatewayLimitExceeded'' ''too many''))))
  \<and> resourceNatGatewayCreate
     (scripted_meta
        (scripted_conn
           (\<lparr>Output_NatGateway = Some (gateway ''pending'' [])\<rparr>, None) (None, None) None)
        (Some (OtherError ''timeout while waiting for state to become available'')) None None)
     (tracked\<lparr>d_Id := ''''\<rparr>) [] =
   ((tracked,
     [CreateNatGateway_call
        \<lparr>Input_AllocationId = Some ''eipalloc-0'', Input_ConnectivityType = Some ''public'',
         Input_SubnetId = Some ''subnet-0'', TagSpecifications = []\<rparr>,
      WaitNATGatewayCreated_call ''nat-1'']),
    Returned (Some (Errorf_w ''error waiting for EC2 NAT Gateway (nat-1) create: ''
      (OtherError ''timeout while waiting for state to become available''))))"
  using
    create_errors [where meta = "scripted_meta
        (scripted_conn
           (\<lparr>Output_NatGateway = None\<rparr>, Some (AwsError ''NatGatewayLimitExceeded'' ''too many''))
           (None, None) None)
        None None None" and d = "tracked\<lparr>d_Id := ''''\<rparr>" and hist = "[]"]
    create_errors [where meta = "scripted_meta
        (scripted_conn
           (\<lparr>Output_NatGateway = Some (gateway ''pending'' [])\<rparr>, None) (None, None) None)
        (Some (OtherError ''timeout while waiting for state to become available'')) None None" and d = "tracked\<lparr>d_Id := ''''\<rparr>" and hist = "[]"]
  by (simp add: fixture_defs create_input_def GetOk_def GetOk_default_def
      ConnectivityTypePublic_def aws_StringValue_def Let_def)

subsection \<open>Update\<close>

lemma tag_added: "(fmempty :: tag_map) \<noteq> fmupd ''Name'' ''edge'' fmempty"
  by simp

text \<open>
  C4, as the code has it. Update sends the tag change through \<^verbatim>\<open>UpdateTags\<close>, and only
  when \<^verbatim>\<open>tags_all\<close> has changed. If that call fails, Update returns its error and has
  neither probed the remote object nor touched the tracked state. Otherwise Update ends
  with a Read of its own: it probes the remote object once, and what it returns, tracked
  state and result, is what Read returns.
\<close>

theorem update_ends_with_read:
  fixes meta :: AWSClient and d :: ResourceData and hist :: "call list"
  defines "tagged \<equiv> hist @ [UpdateTags_call (d_Id d) (tags_all_old d) (tags_all d)]"
  defines "probe \<equiv> DescribeNatGateways_call \<lparr>NatGatewayIds = [Some (d_Id d)]\<rparr>"
  shows "(tags_all_old d = tags_all d \<longrightarrow>
            resourceNatGatewayUpdate meta d hist = resourceNatGatewayRead meta d hist \<and>
            snd (fst (resourceNatGatewayUpdate meta d hist)) = hist @ [probe])
       \<and> (tags_all_old d \<noteq> tags_all d \<and>
          UpdateTags meta hist (d_Id d) (tags_all_old d) (tags_all d) = None \<longrightarrow>
            resourceNatGatewayUpdate meta d hist = resourceNatGatewayRead meta d tagged \<and>
            snd (fst (resourceNatGatewayUpdate meta d hist)) = tagged @ [probe])
       \<and> (\<forall>e. tags_all_old d \<noteq> tags_all d \<and>
              UpdateTags meta hist (d_Id d) (tags_all_old d) (tags_all d) = Some e \<longrightarrow>
            resourceNatGatewayUpdate meta d hist =
              ((d, tagged),
               Returned (Some (Errorf_s
                 (''error updating EC2 NAT Gateway ('' @ d_Id d @ '') tags: '') e))))"
  unfolding tagged_def probe_def
  by (auto simp add: resourceNatGatewayUpdate_def Let_def read_history)

theorem update_ends_with_read_witness:
  "snd (fst (resourceNatGatewayUpdate
       (scripted_meta (scripted_conn no_output (None, None) None) None None None)
       tracked [])) =
     [DescribeNatGateways_call \<lparr>NatGatewayIds = [Some ''nat-1'']\<rparr>]
  \<and> snd (fst (resourceNatGatewayUpdate
       (scripted_meta (scripted_conn no_output (None, None) None) None None None)
       (tracked\<lparr>tags_all := fmupd ''Name'' ''edge'' fmempty\<rparr>) [])) =
     [UpdateTags_call ''nat-1'' fmempty (fmupd ''Name'' ''edge'' fmempty),
      DescribeNatGateways_call \<lparr>NatGatewayIds = [Some ''nat-1'']\<rparr>]
  \<and> resourceNatGatewayUpdate
       (scripted_meta (scripted_conn no_output (None, None) None) None None
          (Some (AwsError ''TagLimitExceeded'' ''too many tags'')))
       (tracked\<lparr>tags_all := fmupd ''Name'' ''edge'' fmempty\<rparr>) [] =
     ((tracked\<lparr>tags_all := fmupd ''Name'' ''edge'' fmempty\<rparr>,
       [UpdateTags_call ''nat-1'' fmempty (fmupd ''Name'' ''edge'' fmempty)]),
      Returned (Some (Errorf_s ''error updating EC2 NAT Gateway (nat-1) tags: ''
        (AwsError ''TagLimitExceeded'' ''too many tags''))))"
proof -
  let ?m = "scripted_meta (scripted_conn no_output (None, None) None) None None None"
  let ?mf = "scripted_meta (scripted_conn no_output (None, None) None) None None
          (Some (AwsError ''TagLimitExceeded'' ''too many tags''))"
  let ?d = "tracked\<lparr>tags_all := fmupd ''Name'' ''edge'' fmempty\<rparr>"
  have same: "tags_all_old tracked = tags_all tracked"
    by (simp add: tracked_def)
  have changed: "tags_all_old ?d \<noteq> tags_all ?d \<and>
      UpdateTags ?m [] (d_Id ?d) (tags_all_old ?d) (tags_all ?d) = None"
    using tag_added by (simp add: tracked_def scripted_meta_def)
  have failed: "tags_all_old ?d \<noteq> tags_all ?d \<and>
      UpdateTags ?mf [] (d_Id ?d) (tags_all_old ?d) (tags_all ?d) =
        Some (AwsError ''TagLimitExceeded'' ''too many tags'')"
    using tag_added by (simp add: tracked_def scripted_meta_def)
  note r1 = update_ends_with_read [where d = tracked and meta = ?m and hist = "[]",
      THEN conjunct1, THEN mp, OF same, THEN conjunct2]
  note r2 = update_ends_with_read [where d = ?d and meta = ?m and hist = "[]",
      THEN conjunct2, THEN conjunct1, THEN mp, OF changed, THEN conjunct2]
  note r3 = update_ends_with_read [where d = ?d and meta = ?mf and hist = "[]",
      THEN conjunct2, THEN conjunct2, THEN spec, THEN mp, OF failed]
  from r1 r2 r3 show ?thesis
    by (simp add: tracked_def)
qed

text \<open>
  C4, as the claim states it, fails: after it has applied a tag change, Update does probe
  the remote object (the describe call is in the history) and overwrites attributes that
  are not tags, here the subnet and the network interface.
\<close>

theorem update_no_read_counterexample:
  "resourceNatGatewayUpdate
     (scripted_meta
        (scripted_conn no_output
           (Some \<lparr>NatGateways = [gateway ''available'' [address_b]]\<rparr>, None) None)
        None None None)
     (tracked\<lparr>tags_all := fmupd ''Name'' ''edge'' fmempty\<rparr>) [] =
   ((tracked\<lparr>connectivity_type := Some ''public'', subnet_id := Some ''subnet-1'',
       allocation_id := Some ''eipalloc-b'', network_interface_id := Some ''eni-b'',
       private_ip := Some ''10.0.0.9'', public_ip := Some ''198.51.100.8'',
       tags := fmempty, tags_all := fmempty\<rparr>,
     [UpdateTags_call ''nat-1'' fmempty (fmupd ''Name'' ''edge'' fmempty),
      DescribeNatGateways_call \<lparr>NatGatewayIds = [Some ''nat-1'']\<rparr>]),
    Returned None)
  \<and> subnet_id tracked = Some ''subnet-0'' \<and> network_interface_id tracked = None"
proof -
  have "\<not> gone (scripted_meta
        (scripted_conn no_output
           (Some \<lparr>NatGateways = [gateway ''available'' [address_b]]\<rparr>, None) None)
        None None None) (Some (gateway ''available'' [address_b])) ''available''"
    by (simp add: gone_iff scripted_meta_def strings_ToLower_def lower_byte_def)
  with tag_added show ?thesis
    by (simp add: resourceNatGatewayUpdate_def resourceNatGatewayRead_def
        NGStateRefreshFunc_def set_attributes_first fixture_defs)
qed

end
